theory Spec2Isabelle
  imports Main "HOL-Library.Word" "HOL-Library.Sublist"
begin

section \<open>JavaScript strings\<close>

text \<open>
  A JavaScript string is a sequence of UTF-16 code units: \<open>length\<close>, \<open>substring\<close> and
  \<open>trim\<close> all count and inspect code units. The string literals of \<open>App.jsx\<close> are ASCII
  and are written with \<open>js\<close>.
\<close>

type_synonym jsstring = "16 word list"

definition js :: "string \<Rightarrow> jsstring" where
  "js s = map of_char s"

definition nl :: jsstring where
  "nl = [0x0A]"

text \<open>
  The code units that \<open>String.prototype.trim\<close> strips: ECMAScript's WhiteSpace
  (TAB, VT, FF, SP, NBSP, ZWNBSP and the Unicode space separators) and LineTerminator
  (LF, CR, LS, PS).
\<close>

definition isWhiteSpace :: "16 word \<Rightarrow> bool" where
  "isWhiteSpace c \<longleftrightarrow>
     c \<in> set [0x09, 0x0A, 0x0B, 0x0C, 0x0D, 0x20, 0xA0, 0x1680,
              0x2028, 0x2029, 0x202F, 0x205F, 0x3000, 0xFEFF]
     \<or> (0x2000 \<le> c \<and> c \<le> 0x200A)"

definition trim :: "jsstring \<Rightarrow> jsstring" where
  "trim s = rev (dropWhile isWhiteSpace (rev (dropWhile isWhiteSpace s)))"

text \<open>\<open>s.substring(0, n)\<close> for a constant \<open>n\<close>: the end index is clamped to the length.\<close>

definition substring0 :: "jsstring \<Rightarrow> nat \<Rightarrow> jsstring" where
  "substring0 s n = take n s"

definition startsWith :: "jsstring \<Rightarrow> jsstring \<Rightarrow> bool" where
  "startsWith s p = prefix p s"

text \<open>\<open>Array.prototype.join\<close> on an array of strings.\<close>

fun join :: "jsstring \<Rightarrow> jsstring list \<Rightarrow> jsstring" where
  "join sep [] = []"
| "join sep [x] = x"
| "join sep (x # y # ys) = x @ sep @ join sep (y # ys)"

section \<open>Data model\<close>

text \<open>A \<open>File\<close> as \<open>handleFileSelect\<close> reads it: \<open>file.type\<close> and \<open>file.size\<close>.\<close>

record file_obj =
  ftype :: jsstring
  fsize :: nat

datatype role = User | Assistant

record chat_turn =
  role :: role
  content :: jsstring

record summary_record =
  short :: jsstring
  detailed :: jsstring
  bullets :: "jsstring list"
  insights :: "jsstring list"
  key_words :: "jsstring list"

datatype view = Upload | Summary | Chat

datatype panel = Short | Detailed

text \<open>The ten \<open>useState\<close> cells of \<open>DocumentSummarizer\<close> (lines 9 to 18).\<close>

record app_state =
  file' :: "file_obj option"
  extractedText :: jsstring
  summaries :: "summary_record option"
  loading :: bool
  chatMessages :: "chat_turn list"
  chatInput :: jsstring
  chatLoading :: bool
  activeView :: view
  expandedSummary :: "panel option"
  error :: jsstring

definition initial :: app_state where
  "initial = \<lparr> file' = None, extractedText = [], summaries = None, loading = False,
               chatMessages = [], chatInput = [], chatLoading = False,
               activeView = Upload, expandedSummary = Some Short, error = [] \<rparr>"

text \<open>\<open>new Error(message)\<close>: every throw and reject of the source carries only a message.\<close>

datatype js_error = Error jsstring

fun message :: "js_error \<Rightarrow> jsstring" where
  "message (Error m) = m"

section \<open>External collaborators\<close>

text \<open>
  What a \<open>fetch\<close> followed by \<open>response.json()\<close> can give: a success body, a non-success
  status whose body has an \<open>error\<close> field or not, or a thrown exception (network failure,
  malformed JSON) with its message.
\<close>

datatype 'a api_response = Ok 'a | NotOk "jsstring option" | Threw jsstring

text \<open>
  The outcomes of the collaborators during one ingestion: \<open>FileReader.readAsText\<close>
  (\<open>None\<close> is \<open>onerror\<close>), the page walk of \<open>pdfjs-dist\<close> (\<open>Inl\<close> is the message of
  whatever was thrown while opening or walking the document, \<open>Inr\<close> the \<open>str\<close> of the
  items of every page, in page order) and the summarization service.
\<close>

record world =
  readAsText :: "jsstring option"
  getDocument :: "jsstring + jsstring list list"
  summarizeApi :: "summary_record api_response"

record summarize_request =
  text' :: jsstring

record chat_request =
  messages :: "chat_turn list"

text \<open>The calls that leave the component, in the order they are made.\<close>

datatype call =
    ExtractText file_obj
  | FetchSummarize summarize_request
  | FetchChat chat_request

section \<open>Ingestion (lines 26 to 130)\<close>

definition validTypes :: "jsstring list" where
  "validTypes =
     [js ''application/pdf'',
      js ''application/msword'',
      js ''application/vnd.openxmlformats-officedocument.wordprocessingml.document'',
      js ''text/plain'',
      js ''image/jpeg'',
      js ''image/png'',
      js ''image/jpg'']"

definition UnsupportedFormat :: jsstring where
  "UnsupportedFormat = js ''Please upload a valid file (PDF, DOC, DOCX, TXT)''"

definition TooLarge :: jsstring where
  "TooLarge = js ''File size must be less than 10MB''"

definition ReadError :: js_error where
  "ReadError = Error (js ''Failed to read text file'')"

definition NoExtractableText :: js_error where
  "NoExtractableText = Error (js ''No text found in PDF (it might be scanned/image-based)'')"

definition ExtractionFailed :: "jsstring \<Rightarrow> js_error" where
  "ExtractionFailed m = Error (js ''Failed to extract text from PDF: '' @ m)"

definition SummarizationFailed :: "jsstring \<Rightarrow> js_error" where
  "SummarizationFailed m = Error (js ''Failed to generate summaries: '' @ m)"

definition ocr_placeholder :: jsstring where
  "ocr_placeholder =
     js ''[Image support requires OCR which is not yet implemented. Please upload a PDF or text file.]''"

definition doc_placeholder :: jsstring where
  "doc_placeholder =
     js ''[DOC/DOCX support requires additional libraries not yet installed. Please upload a PDF or text file.]''"

text \<open>
  The validation at the head of \<open>handleFileSelect\<close> (lines 40 to 48): the allow-list
  first, then the size. \<open>Inl\<close> is the message given to \<open>setError\<close>.
\<close>

definition validate :: "file_obj \<Rightarrow> jsstring + unit" where
  "validate f =
     (if ftype f \<notin> set validTypes then Inl UnsupportedFormat
      else if fsize f > 10 * 1024 * 1024 then Inl TooLarge
      else Inr ())"

text \<open>The loop of lines 85 to 92: \<open>fullText += pageText + '\n'\<close> for every page in order.\<close>

definition pdf_fullText :: "jsstring list list \<Rightarrow> jsstring" where
  "pdf_fullText pages = foldl (\<lambda>fullText items. fullText @ join (js '' '') items @ nl) [] pages"

definition extractText :: "world \<Rightarrow> file_obj \<Rightarrow> js_error + jsstring" where
  "extractText w f =
     (if ftype f = js ''text/plain'' then
        (case readAsText w of
           Some result \<Rightarrow> Inr result
         | None \<Rightarrow> Inl ReadError)
      else if ftype f = js ''application/pdf'' then
        (case getDocument w of
           Inl m \<Rightarrow> Inl (ExtractionFailed m)
         | Inr pages \<Rightarrow>
             (let fullText = pdf_fullText pages
              in if trim fullText = [] then Inl NoExtractableText else Inr fullText))
      else if startsWith (ftype f) (js ''image/'') then Inr ocr_placeholder
      else Inr doc_placeholder)"

text \<open>\<open>errorData.error || fallback\<close>: an absent or empty \<open>error\<close> field is falsy.\<close>

definition or_else :: "jsstring option \<Rightarrow> jsstring \<Rightarrow> jsstring" where
  "or_else e fallback = (case e of None \<Rightarrow> fallback | Some x \<Rightarrow> if x = [] then fallback else x)"

definition summarize_body :: "jsstring \<Rightarrow> summarize_request" where
  "summarize_body t = \<lparr> text' = t \<rparr>"

definition generateSummaries :: "world \<Rightarrow> jsstring \<Rightarrow> js_error + summary_record" where
  "generateSummaries w t =
     (case summarizeApi w of
        Ok data \<Rightarrow> Inr data
      | NotOk e \<Rightarrow> Inl (SummarizationFailed (or_else e (js ''API request failed'')))
      | Threw m \<Rightarrow> Inl (SummarizationFailed m))"

definition greeting :: chat_turn where
  "greeting = \<lparr> role = Assistant,
                content = js ''Hello! I'' @ [0x27] @ js ''ve analyzed your document. Ask me anything about it!'' \<rparr>"

text \<open>The \<open>catch\<close> and \<open>finally\<close> of \<open>handleFileSelect\<close> (lines 65 to 71).\<close>

definition ingest_failed :: "js_error \<Rightarrow> app_state \<Rightarrow> app_state" where
  "ingest_failed err s =
     s\<lparr> error := js ''Error processing document: '' @ message err,
        activeView := Upload,
        file' := None,
        loading := False \<rparr>"

text \<open>
  \<open>handleFileSelect\<close> run to completion: the state after the last setter and the calls
  made on the way. The argument is \<open>e.target.files?.[0]\<close>.
\<close>

definition handleFileSelect :: "world \<Rightarrow> file_obj option \<Rightarrow> app_state \<Rightarrow> app_state \<times> call list" where
  "handleFileSelect w selected s =
     (case selected of
        None \<Rightarrow> (s, [])
      | Some selectedFile \<Rightarrow>
          (case validate selectedFile of
             Inl msg \<Rightarrow> (s\<lparr> error := msg \<rparr>, [])
           | Inr _ \<Rightarrow>
               (let s1 = s\<lparr> file' := Some selectedFile, loading := True, error := [],
                            activeView := Summary \<rparr>
                in case extractText w selectedFile of
                     Inl err \<Rightarrow> (ingest_failed err s1, [ExtractText selectedFile])
                   | Inr t \<Rightarrow>
                       (let s2 = s1\<lparr> extractedText := t \<rparr>;
                            calls = [ExtractText selectedFile, FetchSummarize (summarize_body t)]
                        in case generateSummaries w t of
                             Inl err \<Rightarrow> (ingest_failed err s2, calls)
                           | Inr summaryData \<Rightarrow>
                               (s2\<lparr> summaries := Some summaryData,
                                    chatMessages := [greeting],
                                    loading := False \<rparr>, calls)))))"

text \<open>
  \<open>handleFileSelect\<close> is asynchronous: it suspends at \<open>await extractText\<close> (line 56) and
  at \<open>await generateSummaries\<close> (line 59), and other handlers can run in between. Its
  three stretches, each applied to the state current when it runs (every setter of
  \<open>handleFileSelect\<close> assigns a value that does not depend on the previous one):
  lines 27 to 53, returning the accepted file if the run goes on; lines 56 to 57 with the
  \<open>catch\<close> of a failed extraction, returning the text if the run goes on; lines 59 to 71.
\<close>

definition handleFileSelect_begin :: "file_obj option \<Rightarrow> app_state \<Rightarrow> app_state \<times> file_obj option" where
  "handleFileSelect_begin selected s =
     (case selected of
        None \<Rightarrow> (s, None)
      | Some selectedFile \<Rightarrow>
          (case validate selectedFile of
             Inl msg \<Rightarrow> (s\<lparr> error := msg \<rparr>, None)
           | Inr _ \<Rightarrow>
               (s\<lparr> file' := Some selectedFile, loading := True, error := [],
                   activeView := Summary \<rparr>, Some selectedFile)))"

definition handleFileSelect_extracted :: "world \<Rightarrow> file_obj \<Rightarrow> app_state \<Rightarrow> app_state \<times> jsstring option" where
  "handleFileSelect_extracted w selectedFile s =
     (case extractText w selectedFile of
        Inl err \<Rightarrow> (ingest_failed err s, None)
      | Inr t \<Rightarrow> (s\<lparr> extractedText := t \<rparr>, Some t))"

definition handleFileSelect_summarized :: "world \<Rightarrow> jsstring \<Rightarrow> app_state \<Rightarrow> app_state" where
  "handleFileSelect_summarized w t s =
     (case generateSummaries w t of
        Inl err \<Rightarrow> ingest_failed err s
      | Inr summaryData \<Rightarrow>
          s\<lparr> summaries := Some summaryData, chatMessages := [greeting], loading := False \<rparr>)"


section \<open>Conversation (lines 132 to 182)\<close>

definition framing_instruction :: jsstring where
  "framing_instruction =
     js ''You are a helpful assistant answering questions about this document. Only use information from the document to answer questions.''
     @ nl @ nl @ js ''Document:'' @ nl"

definition framing :: "jsstring \<Rightarrow> chat_turn" where
  "framing doc = \<lparr> role = User, content = framing_instruction @ substring0 doc 20000 \<rparr>"

definition acknowledgment :: chat_turn where
  "acknowledgment =
     \<lparr> role = Assistant,
       content = js ''I understand. I will answer questions based only on the document content provided.'' \<rparr>"

definition fallback :: chat_turn where
  "fallback = \<lparr> role = Assistant, content = js ''Sorry, I encountered an error. Please try again.'' \<rparr>"

text \<open>The \<open>onChange\<close> of the chat input (line 473): \<open>setChatInput(e.target.value)\<close>.\<close>

definition setChatInput :: "jsstring \<Rightarrow> app_state \<Rightarrow> app_state" where
  "setChatInput v s = s\<lparr> chatInput := v \<rparr>"

text \<open>
  \<open>handleChat\<close> up to the \<open>fetch\<close> (lines 133 to 163): the guard, the three setters and
  the outbound message list, which is built from the \<open>chatMessages\<close> and \<open>extractedText\<close>
  of the render in which the handler runs. A rejected submission returns the state as it
  was and sends nothing.
\<close>

definition handleChat_send :: "app_state \<Rightarrow> app_state \<times> chat_request option" where
  "handleChat_send s =
     (if trim (chatInput s) = [] \<or> chatLoading s then (s, None)
      else
        (let userMessage = trim (chatInput s);
             s1 = s\<lparr> chatInput := [],
                     chatMessages := chatMessages s @ [\<lparr> role = User, content = userMessage \<rparr>],
                     chatLoading := True \<rparr>;
             conversationHistory = map (\<lambda>msg. \<lparr> role = role msg, content = content msg \<rparr>) (chatMessages s);
             msgs = [framing (extractedText s), acknowledgment]
                    @ conversationHistory
                    @ [\<lparr> role = User, content = userMessage \<rparr>]
         in (s1, Some \<lparr> messages = msgs \<rparr>)))"

text \<open>
  \<open>handleChat\<close> after the \<open>fetch\<close> (lines 165 to 181): the answer, or the fixed apology
  on any failure, is appended and \<open>chatLoading\<close> is cleared.
\<close>

definition handleChat_receive :: "jsstring api_response \<Rightarrow> app_state \<Rightarrow> app_state" where
  "handleChat_receive resp s =
     (let turn = (case resp of
                    Ok answer \<Rightarrow> \<lparr> role = Assistant, content = answer \<rparr>
                  | NotOk e \<Rightarrow> fallback
                  | Threw m \<Rightarrow> fallback)
      in s\<lparr> chatMessages := chatMessages s @ [turn], chatLoading := False \<rparr>)"

definition handleChat :: "jsstring api_response \<Rightarrow> app_state \<Rightarrow> app_state \<times> call list" where
  "handleChat resp s =
     (case handleChat_send s of
        (s1, None) \<Rightarrow> (s1, [])
      | (s1, Some req) \<Rightarrow> (handleChat_receive resp s1, [FetchChat req]))"

text \<open>
  A run of chat turns: the user types \<open>v\<close>, submits, and the service's response arrives
  before the next one is typed.
\<close>

fun chat_turns :: "(jsstring \<times> jsstring api_response) list \<Rightarrow> app_state \<Rightarrow> app_state" where
  "chat_turns [] s = s"
| "chat_turns ((v, resp) # rest) s = chat_turns rest (fst (handleChat resp (setChatInput v s)))"

section \<open>Reset (lines 184 to 192)\<close>

text \<open>
  The six setters of \<open>resetApp\<close>. The file input element is mounted only in the upload
  view and is not part of the component's state.
\<close>

definition resetApp :: "app_state \<Rightarrow> app_state" where
  "resetApp s =
     s\<lparr> file' := None, extractedText := [], summaries := None, chatMessages := [],
        activeView := Upload, error := [] \<rparr>"

section \<open>Properties of \<open>trim\<close>\<close>

lemma dropWhile_all_iff: "(\<forall>x \<in> set (dropWhile P xs). P x) \<longleftrightarrow> (\<forall>x \<in> set xs. P x)"
proof
  assume a: "\<forall>x \<in> set (dropWhile P xs). P x"
  have "dropWhile P xs = []"
  proof (rule ccontr)
    assume n: "dropWhile P xs \<noteq> []"
    then have "\<not> P (hd (dropWhile P xs))" by (rule hd_dropWhile)
    moreover have "hd (dropWhile P xs) \<in> set (dropWhile P xs)" using n by simp
    ultimately show False using a by blast
  qed
  then show "\<forall>x \<in> set xs. P x" by simp
next
  assume "\<forall>x \<in> set xs. P x"
  then show "\<forall>x \<in> set (dropWhile P xs). P x" by (meson set_dropWhileD)
qed

lemma trim_Nil_iff: "trim s = [] \<longleftrightarrow> (\<forall>c \<in> set s. isWhiteSpace c)"
proof -
  have "trim s = [] \<longleftrightarrow> (\<forall>c \<in> set (dropWhile isWhiteSpace s). isWhiteSpace c)"
    by (simp add: trim_def)
  then show ?thesis by (simp add: dropWhile_all_iff)
qed

lemma trim_decompose:
  "\<exists>l r. s = l @ trim s @ r \<and> (\<forall>c \<in> set l. isWhiteSpace c) \<and> (\<forall>c \<in> set r. isWhiteSpace c)"
proof -
  let ?a = "takeWhile isWhiteSpace s"
  let ?m = "dropWhile isWhiteSpace s"
  let ?b = "takeWhile isWhiteSpace (rev ?m)"
  have "rev (?b @ dropWhile isWhiteSpace (rev ?m)) = rev (rev ?m)"
    by (simp only: takeWhile_dropWhile_id)
  then have "?m = trim s @ rev ?b"
    by (simp only: rev_append rev_rev_ident trim_def)
  moreover have "s = ?a @ ?m" by simp
  ultimately have "s = ?a @ trim s @ rev ?b" by simp
  moreover have "\<forall>c \<in> set ?a. isWhiteSpace c" by (meson set_takeWhileD)
  moreover have "\<forall>c \<in> set (rev ?b). isWhiteSpace c" by (metis set_rev set_takeWhileD)
  ultimately show ?thesis by blast
qed

lemma last_dropWhile: "dropWhile P xs \<noteq> [] \<Longrightarrow> last (dropWhile P xs) = last xs"
proof -
  assume n: "dropWhile P xs \<noteq> []"
  have "last (takeWhile P xs @ dropWhile P xs) = last (dropWhile P xs)"
    using n by (rule last_appendR)
  then show ?thesis by simp
qed

lemma trim_ends:
  assumes "trim s \<noteq> []"
  shows "\<not> isWhiteSpace (hd (trim s)) \<and> \<not> isWhiteSpace (last (trim s))"
proof -
  let ?m = "dropWhile isWhiteSpace s"
  let ?d = "dropWhile isWhiteSpace (rev ?m)"
  have t: "trim s = rev ?d" by (simp add: trim_def)
  with assms have d: "?d \<noteq> []" by simp
  then have "\<not> isWhiteSpace (hd ?d)" by (rule hd_dropWhile)
  then have l: "\<not> isWhiteSpace (last (trim s))" using d t by (simp add: last_rev)
  have m: "?m \<noteq> []"
  proof
    assume e: "?m = []"
    have "?d = []" unfolding e by simp
    with d show False by contradiction
  qed
  then have hm: "\<not> isWhiteSpace (hd ?m)" by (rule hd_dropWhile)
  have "last ?d = last (rev ?m)" using d by (rule last_dropWhile)
  then have "hd (trim s) = hd ?m" using t d m by (simp add: hd_rev last_rev)
  with hm l show ?thesis by simp
qed

section \<open>Validation and extraction\<close>

text \<open>
  C3, as stated, fails: the size test of line 45 is \<open>selectedFile.size > 10 * 1024 * 1024\<close>,
  so a PDF of exactly 10 MiB passes validation and reaches the extractor; and the allow-list
  is tested first, so an oversized file of a type outside the allow-list is turned away
  with the format message, not the size message.
\<close>

theorem size_boundary_counterexample:
  "validate \<lparr> ftype = js ''application/pdf'', fsize = 10 * 1024 * 1024 \<rparr> = Inr ()
   \<and> snd (handleFileSelect \<lparr> readAsText = None, getDocument = Inr [[js ''text'']], summarizeApi = NotOk None \<rparr>
            (Some \<lparr> ftype = js ''application/pdf'', fsize = 10 * 1024 * 1024 \<rparr>) initial)
       = [ExtractText \<lparr> ftype = js ''application/pdf'', fsize = 10 * 1024 * 1024 \<rparr>,
          FetchSummarize \<lparr> text' = js ''text'' @ nl \<rparr>]
   \<and> validate \<lparr> ftype = js ''application/zip'', fsize = 20 * 1024 * 1024 \<rparr> = Inl UnsupportedFormat
   \<and> UnsupportedFormat \<noteq> TooLarge"
  by (simp add: validate_def validTypes_def handleFileSelect_def extractText_def pdf_fullText_def
        trim_def isWhiteSpace_def generateSummaries_def summarize_body_def
        UnsupportedFormat_def TooLarge_def js_def nl_def)

text \<open>
  C3 (amended): a file of strictly more than \<open>10 * 1024 * 1024\<close> bytes never passes
  validation. The error message is the size message when its media type is in the
  allow-list and the format message otherwise, nothing else of the state changes, and no
  call is made: the extractor is not invoked.
\<close>

theorem oversize_never_extracted:
  assumes "fsize f > 10 * 1024 * 1024"
  shows "validate f = Inl (if ftype f \<in> set validTypes then TooLarge else UnsupportedFormat)
       \<and> handleFileSelect w (Some f) s
           = (s\<lparr> error := (if ftype f \<in> set validTypes then TooLarge else UnsupportedFormat) \<rparr>, [])"
  using assms by (simp add: validate_def handleFileSelect_def)

theorem oversize_never_extracted_witness:
  "fsize \<lparr> ftype = js ''application/pdf'', fsize = 10 * 1024 * 1024 + 1 \<rparr> > 10 * 1024 * 1024
   \<and> handleFileSelect \<lparr> readAsText = None, getDocument = Inr [[js ''text'']], summarizeApi = NotOk None \<rparr>
         (Some \<lparr> ftype = js ''application/pdf'', fsize = 10 * 1024 * 1024 + 1 \<rparr>) initial
       = (initial\<lparr> error := TooLarge \<rparr>, [])"
  using oversize_never_extracted [of "\<lparr> ftype = js ''application/pdf'', fsize = 10 * 1024 * 1024 + 1 \<rparr>"
          "\<lparr> readAsText = None, getDocument = Inr [[js ''text'']], summarizeApi = NotOk None \<rparr>" initial]
  by (simp add: validTypes_def)



section \<open>Chat submissions\<close>

lemma history_copy: "map (\<lambda>msg. \<lparr> role = role msg, content = content msg \<rparr>) h = h"
  by (induction h) simp_all

lemma handleChat_send_rejected:
  "trim (chatInput s) = [] \<or> chatLoading s \<Longrightarrow> handleChat_send s = (s, None)"
  by (simp add: handleChat_send_def)

lemma handleChat_send_accepted:
  assumes "trim (chatInput s) \<noteq> []" "\<not> chatLoading s"
  shows "handleChat_send s =
           (s\<lparr> chatInput := [],
               chatMessages := chatMessages s @ [\<lparr> role = User, content = trim (chatInput s) \<rparr>],
               chatLoading := True \<rparr>,
            Some \<lparr> messages = [framing (extractedText s), acknowledgment] @ chatMessages s
                               @ [\<lparr> role = User, content = trim (chatInput s) \<rparr>] \<rparr>)"
  using assms by (simp add: handleChat_send_def Let_def history_copy)

text \<open>
  C7: a submission made while \<open>chatLoading\<close> is set, or whose text is empty or made of
  white space only, is rejected: \<open>handleChat\<close> returns the state exactly as it was and
  sends nothing.
\<close>

theorem chat_guard:
  assumes "chatLoading s \<or> (\<forall>c \<in> set (chatInput s). isWhiteSpace c)"
  shows "handleChat_send s = (s, None) \<and> handleChat resp s = (s, [])"
proof -
  from assms have "trim (chatInput s) = [] \<or> chatLoading s"
    by (auto simp: trim_Nil_iff)
  then have "handleChat_send s = (s, None)" by (rule handleChat_send_rejected)
  then show ?thesis by (simp add: handleChat_def)
qed

theorem chat_guard_witness:
  "chatLoading (initial\<lparr> chatInput := js ''hello'', chatLoading := True \<rparr>)
   \<and> handleChat (Ok (js ''hi'')) (initial\<lparr> chatInput := js ''hello'', chatLoading := True \<rparr>)
       = (initial\<lparr> chatInput := js ''hello'', chatLoading := True \<rparr>, [])
   \<and> list_all isWhiteSpace (chatInput (initial\<lparr> chatInput := js ''  '' @ nl \<rparr>))
   \<and> handleChat (Ok (js ''hi'')) (initial\<lparr> chatInput := js ''  '' @ nl \<rparr>)
       = (initial\<lparr> chatInput := js ''  '' @ nl \<rparr>, [])"
  using chat_guard [of "initial\<lparr> chatInput := js ''hello'', chatLoading := True \<rparr>" "Ok (js ''hi'')"]
        chat_guard [of "initial\<lparr> chatInput := js ''  '' @ nl \<rparr>" "Ok (js ''hi'')"]
  by (simp add: js_def nl_def isWhiteSpace_def)

text \<open>
  C9: for an accepted submission, the user turn appended to \<open>chatMessages\<close> and the last
  message of the outbound list both carry \<open>trim (chatInput s)\<close>: the typed text without
  its leading and trailing white space (what was cut on either side is white space only,
  and what is left neither starts nor ends with white space).
\<close>

theorem chat_sends_trimmed_text:
  assumes "trim (chatInput s) \<noteq> []" "\<not> chatLoading s"
  shows "(\<exists>s1 req.
            handleChat_send s = (s1, Some req)
          \<and> chatMessages s1 = chatMessages s @ [\<lparr> role = User, content = trim (chatInput s) \<rparr>]
          \<and> last (messages req) = \<lparr> role = User, content = trim (chatInput s) \<rparr>)
       \<and> (\<exists>l r. chatInput s = l @ trim (chatInput s) @ r
                \<and> (\<forall>c \<in> set l. isWhiteSpace c) \<and> (\<forall>c \<in> set r. isWhiteSpace c))
       \<and> \<not> isWhiteSpace (hd (trim (chatInput s)))
       \<and> \<not> isWhiteSpace (last (trim (chatInput s)))"
proof -
  have "\<exists>s1 req.
            handleChat_send s = (s1, Some req)
          \<and> chatMessages s1 = chatMessages s @ [\<lparr> role = User, content = trim (chatInput s) \<rparr>]
          \<and> last (messages req) = \<lparr> role = User, content = trim (chatInput s) \<rparr>"
    by (simp add: handleChat_send_accepted [OF assms])
  with trim_decompose [of "chatInput s"] trim_ends [OF assms(1)] show ?thesis
    by blast
qed

theorem chat_sends_trimmed_text_witness:
  "trim (chatInput (initial\<lparr> chatInput := js '' hi '' \<rparr>)) = js ''hi''
   \<and> (\<exists>s1 req. handleChat_send (initial\<lparr> chatInput := js '' hi '' \<rparr>) = (s1, Some req)
        \<and> chatMessages s1 = [\<lparr> role = User, content = js ''hi'' \<rparr>]
        \<and> last (messages req) = \<lparr> role = User, content = js ''hi'' \<rparr>)"
proof -
  let ?s = "initial\<lparr> chatInput := js '' hi '' \<rparr>"
  have t: "trim (chatInput ?s) = js ''hi''"
    by (simp add: trim_def js_def isWhiteSpace_def)
  have a: "trim (chatInput ?s) \<noteq> []" unfolding t by (simp add: js_def)
  have b: "\<not> chatLoading ?s" by (simp add: initial_def)
  have c: "chatMessages ?s = []" by (simp add: initial_def)
  from chat_sends_trimmed_text [OF a b] t c show ?thesis
    by auto
qed

section \<open>PDF extraction\<close>

lemma pdf_fullText_snoc:
  "pdf_fullText (pages @ [items]) = pdf_fullText pages @ join (js '' '') items @ nl"
  by (simp add: pdf_fullText_def)

text \<open>The example of the specification: fragments joined by single spaces, one line per page.\<close>

lemma pdf_fullText_example:
  "pdf_fullText [[js ''Page'', js ''one'', js ''text''], [js ''Page two text'']]
     = js ''Page one text'' @ nl @ js ''Page two text'' @ nl"
  by (simp add: pdf_fullText_def js_def nl_def)

lemma join_whitespace:
  "\<forall>str \<in> set items. \<forall>c \<in> set str. isWhiteSpace c
   \<Longrightarrow> \<forall>c \<in> set (join (js '' '') items). isWhiteSpace c"
proof (induction "js '' ''" items rule: join.induct)
  case 1
  show ?case by simp
next
  case (2 x)
  then show ?case by simp
next
  case (3 x y ys)
  have "isWhiteSpace 0x20" by (simp add: isWhiteSpace_def)
  with 3 show ?case by (auto simp: js_def)
qed

lemma pdf_fullText_whitespace:
  "\<forall>items \<in> set pages. \<forall>str \<in> set items. \<forall>c \<in> set str. isWhiteSpace c
   \<Longrightarrow> \<forall>c \<in> set (pdf_fullText pages). isWhiteSpace c"
proof (induction pages rule: rev_induct)
  case Nil
  show ?case by (simp add: pdf_fullText_def)
next
  case (snoc items pages)
  have "isWhiteSpace 0x0A" by (simp add: isWhiteSpace_def)
  moreover have "\<forall>c \<in> set (join (js '' '') items). isWhiteSpace c"
    using snoc.prems by (intro join_whitespace) simp
  moreover have "\<forall>c \<in> set (pdf_fullText pages). isWhiteSpace c"
    using snoc by simp
  ultimately show ?case by (auto simp: pdf_fullText_snoc nl_def)
qed

text \<open>
  The testable property of the specification: a PDF whose every fragment on every page is
  white space only is rejected in the same way.
\<close>

lemma blank_pages_fail:
  assumes "ftype f = js ''application/pdf''" "getDocument w = Inr pages"
    and "\<forall>items \<in> set pages. \<forall>str \<in> set items. \<forall>c \<in> set str. isWhiteSpace c"
  shows "extractText w f = Inl NoExtractableText"
proof -
  from assms(3) have "\<forall>c \<in> set (pdf_fullText pages). isWhiteSpace c"
    by (rule pdf_fullText_whitespace)
  then have "trim (pdf_fullText pages) = []" by (simp add: trim_Nil_iff)
  moreover have "ftype f \<noteq> js ''text/plain''" using assms(1) by (simp add: js_def)
  ultimately show ?thesis using assms(1,2) by (simp add: extractText_def)
qed

text \<open>
  C8: a PDF whose concatenated page text is empty or made of white space only is rejected
  with the message of \<open>NoExtractableText\<close>; extraction does not succeed with an empty
  string.
\<close>

theorem pdf_without_text_fails:
  assumes "ftype f = js ''application/pdf''" "getDocument w = Inr pages"
    and "\<forall>c \<in> set (pdf_fullText pages). isWhiteSpace c"
  shows "extractText w f = Inl NoExtractableText \<and> extractText w f \<noteq> Inr []"
proof -
  from assms(3) have "trim (pdf_fullText pages) = []" by (simp add: trim_Nil_iff)
  moreover have "ftype f \<noteq> js ''text/plain''" using assms(1) by (simp add: js_def)
  ultimately show ?thesis using assms(1,2) by (simp add: extractText_def)
qed

theorem pdf_without_text_fails_witness:
  "pdf_fullText [[js '' '', []], []] = js ''  '' @ nl @ nl
   \<and> list_all isWhiteSpace (pdf_fullText [[js '' '', []], []])
   \<and> extractText \<lparr> readAsText = None, getDocument = Inr [[js '' '', []], []], summarizeApi = NotOk None \<rparr>
        \<lparr> ftype = js ''application/pdf'', fsize = 7 \<rparr> = Inl NoExtractableText"
proof -
  have p: "pdf_fullText [[js '' '', []], []] = js ''  '' @ nl @ nl"
    by (simp add: pdf_fullText_def js_def nl_def)
  have a: "list_all isWhiteSpace (pdf_fullText [[js '' '', []], []])"
    unfolding p by (simp add: js_def nl_def isWhiteSpace_def)
  then have b: "\<forall>c \<in> set (pdf_fullText [[js '' '', []], []]). isWhiteSpace c"
    by (simp only: list_all_iff)
  from pdf_without_text_fails [of "\<lparr> ftype = js ''application/pdf'', fsize = 7 \<rparr>"
      "\<lparr> readAsText = None, getDocument = Inr [[js '' '', []], []], summarizeApi = NotOk None \<rparr>"
      "[[js '' '', []], []]", OF _ _ b] p a
  show ?thesis by simp
qed

section \<open>Summarization and failed ingestion\<close>


text \<open>
  C5, as stated, fails: the \<open>catch\<close> of \<open>generateSummaries\<close> (lines 126 to 129) wraps
  every error, so for the body \<open>{error: "x"}\<close> the message of the error raised is
  \<open>Failed to generate summaries: x\<close>, not \<open>x\<close>.
\<close>

theorem summarize_error_counterexample:
  "generateSummaries \<lparr> readAsText = None, getDocument = Inl [], summarizeApi = NotOk (Some (js ''x'')) \<rparr> (js ''abc'')
     = Inl (Error (js ''Failed to generate summaries: x''))
   \<and> message (Error (js ''Failed to generate summaries: x'')) \<noteq> js ''x''"
  by (simp add: generateSummaries_def SummarizationFailed_def or_else_def js_def)

text \<open>
  C5 (amended): the summarization request carries the extracted text unmodified, and for a
  non-success response whose body has a non-empty \<open>error\<close> field \<open>x\<close> the error raised
  has the message \<open>Failed to generate summaries: \<close> followed by \<open>x\<close>.
\<close>

theorem summarize_request_and_failure:
  "(validate f = Inr () \<and> extractText w f = Inr T
      \<longrightarrow> snd (handleFileSelect w (Some f) s) = [ExtractText f, FetchSummarize \<lparr> text' = T \<rparr>])
   \<and> (summarizeApi w = NotOk (Some x) \<and> x \<noteq> []
      \<longrightarrow> generateSummaries w T = Inl (SummarizationFailed x)
          \<and> message (SummarizationFailed x) = js ''Failed to generate summaries: '' @ x)"
  by (auto simp: handleFileSelect_def Let_def summarize_body_def generateSummaries_def
        SummarizationFailed_def or_else_def split: sum.splits)

theorem summarize_request_and_failure_witness:
  "validate \<lparr> ftype = js ''text/plain'', fsize = 3 \<rparr> = Inr ()
   \<and> extractText \<lparr> readAsText = Some (js ''abc''), getDocument = Inl [], summarizeApi = NotOk (Some (js ''x'')) \<rparr>
        \<lparr> ftype = js ''text/plain'', fsize = 3 \<rparr> = Inr (js ''abc'')
   \<and> snd (handleFileSelect \<lparr> readAsText = Some (js ''abc''), getDocument = Inl [], summarizeApi = NotOk (Some (js ''x'')) \<rparr>
        (Some \<lparr> ftype = js ''text/plain'', fsize = 3 \<rparr>) initial)
      = [ExtractText \<lparr> ftype = js ''text/plain'', fsize = 3 \<rparr>, FetchSummarize \<lparr> text' = js ''abc'' \<rparr>]
   \<and> generateSummaries \<lparr> readAsText = Some (js ''abc''), getDocument = Inl [], summarizeApi = NotOk (Some (js ''x'')) \<rparr> (js ''abc'')
      = Inl (SummarizationFailed (js ''x''))"
proof -
  let ?f = "\<lparr> ftype = js ''text/plain'', fsize = 3 \<rparr>"
  let ?w = "\<lparr> readAsText = Some (js ''abc''), getDocument = Inl [], summarizeApi = NotOk (Some (js ''x'')) \<rparr>"
  have v: "validate ?f = Inr ()" by (simp add: validate_def validTypes_def js_def)
  have e: "extractText ?w ?f = Inr (js ''abc'')" by (simp add: extractText_def)
  have x: "js ''x'' \<noteq> []" by (simp add: js_def)
  from summarize_request_and_failure [of ?f ?w "js ''abc''" initial "js ''x''"] v e x
  show ?thesis by simp
qed

text \<open>
  C2, as stated, fails: after a failed summarization the state is not the one before the
  ingestion. The error message is set, and \<open>extractedText\<close>, assigned at line 57 before
  the summarization call, keeps the text of the rejected document.
\<close>

theorem failed_summarization_counterexample:
  "fst (handleFileSelect
       \<lparr> readAsText = Some (js ''abc''), getDocument = Inl [], summarizeApi = NotOk None \<rparr>
       (Some \<lparr> ftype = js ''text/plain'', fsize = 3 \<rparr>) initial) \<noteq> initial
   \<and> extractedText (fst (handleFileSelect
       \<lparr> readAsText = Some (js ''abc''), getDocument = Inl [], summarizeApi = NotOk None \<rparr>
       (Some \<lparr> ftype = js ''text/plain'', fsize = 3 \<rparr>) initial)) = js ''abc''
   \<and> error (fst (handleFileSelect
       \<lparr> readAsText = Some (js ''abc''), getDocument = Inl [], summarizeApi = NotOk None \<rparr>
       (Some \<lparr> ftype = js ''text/plain'', fsize = 3 \<rparr>) initial))
       = js ''Error processing document: Failed to generate summaries: API request failed''"
  by (simp add: handleFileSelect_def validate_def validTypes_def extractText_def
        generateSummaries_def SummarizationFailed_def or_else_def ingest_failed_def
        summarize_body_def initial_def js_def)

text \<open>
  C2 (amended): a failed validation changes only the error message and makes no call. A
  failed extraction leaves every cell as it was except that there is no current file,
  the view is the upload view, \<open>loading\<close> is off and the error message describes the
  failure. A failed summarization creates no summary and no conversation, leaves no
  current file, shows the upload view with \<open>loading\<close> off and sets the error message.
  Nothing is said about \<open>extractedText\<close> after a failed summarization.
\<close>

theorem failed_ingestion_state:
  "(validate f = Inl msg \<longrightarrow> handleFileSelect w (Some f) s = (s\<lparr> error := msg \<rparr>, []))
   \<and> (validate f = Inr () \<and> extractText w f = Inl err \<longrightarrow>
        fst (handleFileSelect w (Some f) s)
          = s\<lparr> file' := None, loading := False, activeView := Upload,
               error := js ''Error processing document: '' @ message err \<rparr>)
   \<and> (validate f = Inr () \<and> extractText w f = Inr t \<and> generateSummaries w t = Inl err \<longrightarrow>
        summaries (fst (handleFileSelect w (Some f) s)) = summaries s
      \<and> chatMessages (fst (handleFileSelect w (Some f) s)) = chatMessages s
      \<and> file' (fst (handleFileSelect w (Some f) s)) = None
      \<and> activeView (fst (handleFileSelect w (Some f) s)) = Upload
      \<and> loading (fst (handleFileSelect w (Some f) s)) = False
      \<and> error (fst (handleFileSelect w (Some f) s)) = js ''Error processing document: '' @ message err
      \<and> chatInput (fst (handleFileSelect w (Some f) s)) = chatInput s
      \<and> chatLoading (fst (handleFileSelect w (Some f) s)) = chatLoading s
      \<and> expandedSummary (fst (handleFileSelect w (Some f) s)) = expandedSummary s)"
  by (simp add: handleFileSelect_def Let_def ingest_failed_def)

theorem failed_ingestion_state_witness:
  "validate \<lparr> ftype = js ''application/zip'', fsize = 3 \<rparr> = Inl UnsupportedFormat
   \<and> handleFileSelect \<lparr> readAsText = None, getDocument = Inl (js ''bad''), summarizeApi = NotOk None \<rparr>
        (Some \<lparr> ftype = js ''application/zip'', fsize = 3 \<rparr>) initial
       = (initial\<lparr> error := UnsupportedFormat \<rparr>, [])
   \<and> extractText \<lparr> readAsText = None, getDocument = Inl (js ''bad''), summarizeApi = NotOk None \<rparr>
        \<lparr> ftype = js ''application/pdf'', fsize = 3 \<rparr> = Inl (ExtractionFailed (js ''bad''))
   \<and> fst (handleFileSelect \<lparr> readAsText = None, getDocument = Inl (js ''bad''), summarizeApi = NotOk None \<rparr>
        (Some \<lparr> ftype = js ''application/pdf'', fsize = 3 \<rparr>) initial)
       = initial\<lparr> error := js ''Error processing document: '' @ message (ExtractionFailed (js ''bad'')) \<rparr>
   \<and> generateSummaries \<lparr> readAsText = Some (js ''abc''), getDocument = Inl [], summarizeApi = NotOk None \<rparr> (js ''abc'')
       = Inl (SummarizationFailed (js ''API request failed''))
   \<and> summaries (fst (handleFileSelect
        \<lparr> readAsText = Some (js ''abc''), getDocument = Inl [], summarizeApi = NotOk None \<rparr>
        (Some \<lparr> ftype = js ''text/plain'', fsize = 3 \<rparr>) initial)) = None
   \<and> chatMessages (fst (handleFileSelect
        \<lparr> readAsText = Some (js ''abc''), getDocument = Inl [], summarizeApi = NotOk None \<rparr>
        (Some \<lparr> ftype = js ''text/plain'', fsize = 3 \<rparr>) initial)) = []
   \<and> file' (fst (handleFileSelect
        \<lparr> readAsText = Some (js ''abc''), getDocument = Inl [], summarizeApi = NotOk None \<rparr>
        (Some \<lparr> ftype = js ''text/plain'', fsize = 3 \<rparr>) initial)) = None"
proof -
  let ?w1 = "\<lparr> readAsText = None, getDocument = Inl (js ''bad''), summarizeApi = NotOk None \<rparr>"
  let ?w2 = "\<lparr> readAsText = Some (js ''abc''), getDocument = Inl [], summarizeApi = NotOk None \<rparr>"
  let ?zip = "\<lparr> ftype = js ''application/zip'', fsize = 3 \<rparr>"
  let ?pdf = "\<lparr> ftype = js ''application/pdf'', fsize = 3 \<rparr>"
  let ?txt = "\<lparr> ftype = js ''text/plain'', fsize = 3 \<rparr>"
  have v1: "validate ?zip = Inl UnsupportedFormat" by (simp add: validate_def validTypes_def js_def)
  have v2: "validate ?pdf = Inr ()" by (simp add: validate_def validTypes_def js_def)
  have v3: "validate ?txt = Inr ()" by (simp add: validate_def validTypes_def js_def)
  have e2: "extractText ?w1 ?pdf = Inl (ExtractionFailed (js ''bad''))"
    by (simp add: extractText_def js_def)
  have e3: "extractText ?w2 ?txt = Inr (js ''abc'')" by (simp add: extractText_def)
  have g3: "generateSummaries ?w2 (js ''abc'') = Inl (SummarizationFailed (js ''API request failed''))"
    by (simp add: generateSummaries_def or_else_def)
  have i: "initial\<lparr> file' := None, loading := False, activeView := Upload, error := m \<rparr>
             = initial\<lparr> error := m \<rparr>" for m
    by (simp add: initial_def)
  from failed_ingestion_state [of ?zip UnsupportedFormat ?w1 initial]
       failed_ingestion_state [of ?pdf _ ?w1 initial "ExtractionFailed (js ''bad'')"]
       failed_ingestion_state [of ?txt _ ?w2 initial "SummarizationFailed (js ''API request failed'')" "js ''abc''"]
       v1 v2 v3 e2 e3 g3
  show ?thesis by (simp add: i initial_def)
qed

section \<open>Conversation history\<close>


lemma handleChat_preserves:
  "extractedText (fst (handleChat resp s)) = extractedText s
   \<and> (\<not> chatLoading s \<longrightarrow> \<not> chatLoading (fst (handleChat resp s)))"
proof (cases "trim (chatInput s) = [] \<or> chatLoading s")
  case True
  then have "handleChat_send s = (s, None)" by (rule handleChat_send_rejected)
  then show ?thesis by (simp add: handleChat_def)
next
  case False
  then have "trim (chatInput s) \<noteq> []" "\<not> chatLoading s" by simp_all
  then show ?thesis
    by (simp add: handleChat_def handleChat_send_accepted handleChat_receive_def)
qed

lemma chat_turns_preserves:
  "extractedText (chat_turns ts s) = extractedText s
   \<and> (\<not> chatLoading s \<longrightarrow> \<not> chatLoading (chat_turns ts s))"
proof (induction ts arbitrary: s)
  case Nil
  show ?case by simp
next
  case (Cons t ts)
  obtain v resp where t: "t = (v, resp)" by (cases t)
  let ?s = "fst (handleChat resp (setChatInput v s))"
  have "extractedText ?s = extractedText s" "\<not> chatLoading s \<longrightarrow> \<not> chatLoading ?s"
    using handleChat_preserves [of resp "setChatInput v s"] by (simp_all add: setChatInput_def)
  with Cons.IH [of ?s] show ?case by (simp add: t)
qed



text \<open>
  Run with nothing in between, the three stretches of \<open>handleFileSelect\<close> give the state
  of the whole run.
\<close>

lemma handleFileSelect_phases:
  "fst (handleFileSelect w selected s) =
     (case handleFileSelect_begin selected s of
        (s1, None) \<Rightarrow> s1
      | (s1, Some f) \<Rightarrow>
          (case handleFileSelect_extracted w f s1 of
             (s2, None) \<Rightarrow> s2
           | (s2, Some t) \<Rightarrow> handleFileSelect_summarized w t s2))"
  by (simp add: handleFileSelect_def handleFileSelect_begin_def handleFileSelect_extracted_def
        handleFileSelect_summarized_def Let_def split: option.splits sum.splits)




text \<open>
  C6: when the extracted text is longer than 20000 code units, the framing message of
  every accepted submission, after any run of earlier turns whatever their inputs and
  outcomes, is the instruction followed by exactly the first 20000 code units of the
  extracted text.
\<close>

theorem chat_truncation:
  assumes "length (extractedText s0) > 20000" "\<not> chatLoading s0" "trim v \<noteq> []"
  shows "\<exists>s1 rest.
           handleChat_send (setChatInput v (chat_turns ts s0))
             = (s1, Some \<lparr> messages =
                  \<lparr> role = User, content = framing_instruction @ take 20000 (extractedText s0) \<rparr> # rest \<rparr>)
         \<and> length (take 20000 (extractedText s0)) = 20000"
proof -
  let ?s = "chat_turns ts s0"
  have e: "extractedText ?s = extractedText s0" and l: "\<not> chatLoading ?s"
    using chat_turns_preserves [of ts s0] assms(2) by simp_all
  have "trim (chatInput (setChatInput v ?s)) \<noteq> []" "\<not> chatLoading (setChatInput v ?s)"
    using assms(3) l by (simp_all add: setChatInput_def)
  from handleChat_send_accepted [OF this] e assms(1) show ?thesis
    by (simp add: setChatInput_def framing_def substring0_def)
qed

theorem chat_truncation_witness:
  "length (extractedText (initial\<lparr> extractedText := replicate 20001 0x61 \<rparr>)) > 20000
   \<and> (\<exists>s1 rest.
        handleChat_send (setChatInput (js ''hi'')
            (chat_turns [(js ''q1'', Ok (js ''a1'')), (js ''q2'', Threw (js ''down''))]
               (initial\<lparr> extractedText := replicate 20001 0x61 \<rparr>)))
          = (s1, Some \<lparr> messages =
               \<lparr> role = User, content = framing_instruction @ replicate 20000 0x61 \<rparr> # rest \<rparr>))"
proof -
  let ?s0 = "initial\<lparr> extractedText := replicate 20001 0x61 \<rparr>"
  have x: "extractedText ?s0 = replicate 20001 0x61" by simp
  have a: "length (extractedText ?s0) > 20000" unfolding x by (simp only: length_replicate)
  have l: "\<not> chatLoading ?s0" by (simp add: initial_def)
  have b: "trim (js ''hi'') \<noteq> []" by (simp add: trim_def js_def isWhiteSpace_def)
  have t: "take 20000 (replicate 20001 (0x61 :: 16 word)) = replicate 20000 0x61"
    by (simp only: take_replicate) simp
  from chat_truncation [OF a l b, of "[(js ''q1'', Ok (js ''a1'')), (js ''q2'', Threw (js ''down''))]"]
  show ?thesis unfolding x t using a unfolding x by blast
qed

section \<open>Reset\<close>

text \<open>
  C4, as stated, fails: \<open>resetApp\<close> has no setter for \<open>chatInput\<close>, so text typed into
  the chat box before the reset is still there after it.
\<close>

theorem reset_counterexample:
  "resetApp (setChatInput (js ''hi'') (fst (handleFileSelect
       \<lparr> readAsText = Some (js ''abc''), getDocument = Inl [],
         summarizeApi = Ok \<lparr> short = js ''s'', detailed = js ''d'', bullets = [], insights = [], key_words = [] \<rparr> \<rparr>
       (Some \<lparr> ftype = js ''text/plain'', fsize = 3 \<rparr>) initial))) \<noteq> initial
   \<and> chatInput (resetApp (setChatInput (js ''hi'') (fst (handleFileSelect
       \<lparr> readAsText = Some (js ''abc''), getDocument = Inl [],
         summarizeApi = Ok \<lparr> short = js ''s'', detailed = js ''d'', bullets = [], insights = [], key_words = [] \<rparr> \<rparr>
       (Some \<lparr> ftype = js ''text/plain'', fsize = 3 \<rparr>) initial)))) = js ''hi''
   \<and> chatInput initial = []"
  by (simp add: resetApp_def setChatInput_def handleFileSelect_def validate_def validTypes_def
        extractText_def generateSummaries_def summarize_body_def initial_def js_def)

text \<open>
  C4 (amended): \<open>resetApp\<close> restores the file, the extracted text, the summaries, the
  conversation, the view and the error message to their initial values and leaves
  \<open>loading\<close>, \<open>chatInput\<close>, \<open>chatLoading\<close> and \<open>expandedSummary\<close> as they were; the
  result is the initial state exactly when those four already had their initial values.
  Resetting twice is the same as resetting once.
\<close>

theorem reset_restores:
  "resetApp s = initial\<lparr> loading := loading s, chatInput := chatInput s,
                        chatLoading := chatLoading s, expandedSummary := expandedSummary s \<rparr>
   \<and> (resetApp s = initial \<longleftrightarrow>
        loading s = loading initial \<and> chatInput s = chatInput initial
      \<and> chatLoading s = chatLoading initial \<and> expandedSummary s = expandedSummary initial)
   \<and> resetApp (resetApp s) = resetApp s"
  by (cases s) (auto simp: resetApp_def initial_def)

end
